theory Spec2Isabelle
  imports Main "HOL-Library.Char_ord" "HOL-Library.List_Lexorder"
begin

section \<open>Python values used by the signature client\<close>

text \<open>
  The package \<^verbatim>\<open>inbenta_api_signature\<close> consists of the class \<^verbatim>\<open>SignatureClient\<close>, a
  facade over one signature protocol object, and of \<^verbatim>\<open>SignatureAdapter\<close>, a transport
  adapter that signs outgoing requests and checks the signature of responses.

  Strings are lists of characters. Exceptions are values of the type \<open>error\<close>; a
  function that may raise returns \<open>error + 'a\<close> with \<open>Inl\<close> for the exception.
  A \<open>pydict\<close> is a dictionary from strings to strings, given by its items in the
  order of iteration. The type \<open>headers\<close> is the lookup \<^verbatim>\<open>get\<close> of the headers of a
  response.
\<close>

datatype error =
    ValueError string
  | Raised string  \<comment> \<open>any exception raised inside a protocol object\<close>

type_synonym headers = "string \<rightharpoonup> string"
type_synonym pydict = "(string \<times> string) list"
type_synonym params = "(string \<times> string) list"
type_synonym clock = nat

text \<open>
  \<^verbatim>\<open>str.lower()\<close> and \<^verbatim>\<open>str.upper()\<close>. Only the letters A to Z are mapped; no other
  character is turned into the letter \<open>v\<close> or the digit \<open>1\<close> by Python either, which is all
  that the lookup of the version name depends on.
\<close>

definition lower_char :: "char \<Rightarrow> char" where
  "lower_char c =
     (case map_of (zip ''ABCDEFGHIJKLMNOPQRSTUVWXYZ'' ''abcdefghijklmnopqrstuvwxyz'') c of
        None \<Rightarrow> c
      | Some l \<Rightarrow> l)"

definition lower :: "string \<Rightarrow> string" where
  "lower s = map lower_char s"

definition upper_char :: "char \<Rightarrow> char" where
  "upper_char c =
     (case map_of (zip ''abcdefghijklmnopqrstuvwxyz'' ''ABCDEFGHIJKLMNOPQRSTUVWXYZ'') c of
        None \<Rightarrow> c
      | Some u \<Rightarrow> u)"

definition upper :: "string \<Rightarrow> string" where
  "upper s = map upper_char s"

text \<open>
  A Python object that can be handed to the client as its protocol. The record holds
  what the client and the adapter observe of it: whether it is an instance of
  \<^verbatim>\<open>BaseVersion\<close>, its truth value \<^verbatim>\<open>bool(obj)\<close>, its \<^verbatim>\<open>str(obj)\<close>, and the five
  capabilities of a protocol. The signature value that \<^verbatim>\<open>signRequest\<close> returns and
  \<^verbatim>\<open>getHeaders\<close> consumes is of a type \<open>'sig\<close> chosen by the protocol. A method that
  reads the system clock takes the clock reading as an argument.
\<close>

record 'sig pyobject =
  isBaseVersion :: bool
  truthy :: bool
  str_of :: string
  SIGNATURE_HEADER :: string
  genTimestamp :: "clock \<Rightarrow> error + string"
  signRequest :: "clock \<Rightarrow> string \<Rightarrow> string option \<Rightarrow> params option \<Rightarrow> string option
                    \<Rightarrow> string option \<Rightarrow> error + 'sig"
  getHeaders :: "'sig \<Rightarrow> error + pydict"
  validateResponse :: "string \<Rightarrow> string \<Rightarrow> string option \<Rightarrow> error + bool"

text \<open>The argument \<^verbatim>\<open>signatureVersion\<close> of the constructors: \<^verbatim>\<open>None\<close>, a string or an object.\<close>

datatype 'sig version_arg =
    PyNone
  | PyStr string
  | PyObj "'sig pyobject"

fun arg_truthy :: "'sig version_arg \<Rightarrow> bool" where
  "arg_truthy PyNone = False"
| "arg_truthy (PyStr s) = (s \<noteq> [])"
| "arg_truthy (PyObj obj) = truthy obj"

fun arg_isBaseVersion :: "'sig version_arg \<Rightarrow> bool" where
  "arg_isBaseVersion PyNone = False"
| "arg_isBaseVersion (PyStr s) = False"
| "arg_isBaseVersion (PyObj obj) = isBaseVersion obj"

fun arg_str :: "'sig version_arg \<Rightarrow> string" where
  "arg_str PyNone = ''None''"
| "arg_str (PyStr s) = s"
| "arg_str (PyObj obj) = str_of obj"

section \<open>SignatureClient\<close>

record 'sig SignatureClient =
  signProtocol :: "'sig pyobject"

definition unsupported_version :: error where
  "unsupported_version =
     ValueError ''Signature Version is not correct. Supported versions: [v1]''"

text \<open>
  \<^verbatim>\<open>SignatureClient.__init__\<close>. The class \<^verbatim>\<open>V1\<close> lives in the protocol module; its
  constructor is the parameter \<open>V1\<close> here, and it may raise. The dictionary literal
  builds the \<^verbatim>\<open>V1\<close> object before the lookup, whatever the name looked up is. The
  result of the lookup is \<open>None\<close> when the name is not a key; an object that is an
  instance of \<^verbatim>\<open>BaseVersion\<close> is kept as it is. The last test raises for \<open>None\<close> and
  for any object whose truth value is false.
\<close>

definition SignatureClient_init ::
  "(string \<Rightarrow> string option \<Rightarrow> error + 'sig pyobject) \<Rightarrow> string \<Rightarrow> string option
     \<Rightarrow> 'sig version_arg \<Rightarrow> error + 'sig SignatureClient" where
  "SignatureClient_init V1 signatureKey baseUrl signatureVersion =
     (let signatureVersion1 =
            (if arg_truthy signatureVersion then signatureVersion else PyStr ''v1'');
          chosen =
            (if \<not> arg_isBaseVersion signatureVersion1
             then (case V1 signatureKey baseUrl of
                     Inl e \<Rightarrow> Inl e
                   | Inr v1 \<Rightarrow> Inr ((Map.empty(''v1'' \<mapsto> v1)) (lower (arg_str signatureVersion1))))
             else (case signatureVersion1 of
                     PyObj obj \<Rightarrow> Inr (Some obj)
                   | _ \<Rightarrow> Inr None))
      in case chosen of
           Inl e \<Rightarrow> Inl e
         | Inr None \<Rightarrow> Inl unsupported_version
         | Inr (Some p) \<Rightarrow>
             if \<not> truthy p then Inl unsupported_version
             else Inr \<lparr>signProtocol = p\<rparr>)"

definition SignatureClient_SIGNATURE_HEADER :: "'sig SignatureClient \<Rightarrow> string" where
  "SignatureClient_SIGNATURE_HEADER self = SIGNATURE_HEADER (signProtocol self)"

definition SignatureClient_genTimestamp :: "'sig SignatureClient \<Rightarrow> clock \<Rightarrow> error + string" where
  "SignatureClient_genTimestamp self clk = genTimestamp (signProtocol self) clk"

text \<open>
  \<^verbatim>\<open>signRequest(self, url, params, body, method, timestamp)\<close>: the protocol is called
  with the arguments by keyword, then its \<^verbatim>\<open>getHeaders\<close> renders the signature.
\<close>

definition SignatureClient_signRequest ::
  "'sig SignatureClient \<Rightarrow> clock \<Rightarrow> string \<Rightarrow> params option \<Rightarrow> string option
     \<Rightarrow> string option \<Rightarrow> string option \<Rightarrow> error + pydict" where
  "SignatureClient_signRequest self clk url params body method timestamp =
     (case signRequest (signProtocol self) clk url method params body timestamp of
        Inl e \<Rightarrow> Inl e
      | Inr signature \<Rightarrow> getHeaders (signProtocol self) signature)"

definition SignatureClient_validateResponse ::
  "'sig SignatureClient \<Rightarrow> string \<Rightarrow> string \<Rightarrow> string option \<Rightarrow> error + bool" where
  "SignatureClient_validateResponse self signature body timestamp =
     validateResponse (signProtocol self) signature body timestamp"

text \<open>
  A caller uses a client through its four public members. None of the methods assigns
  to \<^verbatim>\<open>self._signProtocol\<close>, so each call returns its result together with the client
  as it was. An exception leaves the client in place as well.
\<close>

datatype call =
    ReadSignatureHeader
  | GenTimestamp
  | SignRequest string "params option" "string option" "string option" "string option"
  | ValidateResponse string string "string option"

datatype outcome =
    HeaderName string
  | Timestamp string
  | Headers pydict
  | Valid bool

fun perform :: "'sig SignatureClient \<Rightarrow> clock \<Rightarrow> call
                  \<Rightarrow> (error + outcome) \<times> 'sig SignatureClient" where
  "perform self clk ReadSignatureHeader =
     (Inr (HeaderName (SignatureClient_SIGNATURE_HEADER self)), self)"
| "perform self clk GenTimestamp =
     (map_sum id Timestamp (SignatureClient_genTimestamp self clk), self)"
| "perform self clk (SignRequest url params body method timestamp) =
     (map_sum id Headers (SignatureClient_signRequest self clk url params body method timestamp),
      self)"
| "perform self clk (ValidateResponse signature body timestamp) =
     (map_sum id Valid (SignatureClient_validateResponse self signature body timestamp), self)"

text \<open>
  A sequence of calls, each at its own clock reading; the caller catches exceptions
  and goes on.
\<close>

fun perform_all :: "'sig SignatureClient \<Rightarrow> (clock \<times> call) list
                      \<Rightarrow> (error + outcome) list \<times> 'sig SignatureClient" where
  "perform_all self [] = ([], self)"
| "perform_all self ((clk, c) # cs) =
     (let (r, self1) = perform self clk c;
          (rs, self2) = perform_all self1 cs
      in (r # rs, self2))"

section \<open>SignatureAdapter\<close>

text \<open>
  The adapter holds a client and the timestamp of the last request it signed. Of a
  request it reads the url, the method and the body and updates the headers. Of the
  response built by the parent \<^verbatim>\<open>HTTPAdapter\<close> it reads the headers and the text, and
  it sets the attribute \<^verbatim>\<open>validSignature\<close>.
\<close>

record 'sig SignatureAdapter =
  client :: "'sig SignatureClient"
  timestamp_of :: "string option"

text \<open>
  The headers of a request are a \<^verbatim>\<open>CaseInsensitiveDict\<close> of the transport library:
  a store from the lower-case form of a key to the key as last set and its value.
  Setting an item replaces the entry of the same key in any case, and
  \<^verbatim>\<open>update\<close> sets the items of a dictionary one after the other. Header names are
  ASCII, where \<open>lower\<close> is \<^verbatim>\<open>str.lower()\<close>.
\<close>

type_synonym ci_dict = "string \<rightharpoonup> string \<times> string"

definition ci_get :: "ci_dict \<Rightarrow> string \<Rightarrow> string option" where
  "ci_get d key = map_option snd (d (lower key))"

definition ci_setitem :: "ci_dict \<Rightarrow> string \<Rightarrow> string \<Rightarrow> ci_dict" where
  "ci_setitem d key v = d(lower key \<mapsto> (key, v))"

definition ci_update :: "ci_dict \<Rightarrow> pydict \<Rightarrow> ci_dict" where
  "ci_update d other = fold (\<lambda>(key, v) d1. ci_setitem d1 key v) other d"

record request =
  req_url :: string
  req_method :: "string option"
  req_body :: "string option"
  req_headers :: ci_dict

record response =
  resp_headers :: headers
  resp_text :: string

record signed_response = response +
  validSignature :: "bool option"

definition SignatureAdapter_init ::
  "(string \<Rightarrow> string option \<Rightarrow> error + 'sig pyobject) \<Rightarrow> string \<Rightarrow> string option
     \<Rightarrow> 'sig version_arg \<Rightarrow> error + 'sig SignatureAdapter" where
  "SignatureAdapter_init V1 signatureKey baseUrl signatureVersion =
     (case SignatureClient_init V1 signatureKey baseUrl signatureVersion of
        Inl e \<Rightarrow> Inl e
      | Inr c \<Rightarrow> Inr \<lparr>client = c, timestamp_of = None\<rparr>)"

text \<open>
  \<^verbatim>\<open>add_headers\<close> stores the new timestamp before it signs, so the timestamp stays
  stored when signing raises.
\<close>

definition add_headers ::
  "'sig SignatureAdapter \<Rightarrow> clock \<Rightarrow> request \<Rightarrow> (error + request) \<times> 'sig SignatureAdapter" where
  "add_headers self clk request =
     (case SignatureClient_genTimestamp (client self) clk of
        Inl e \<Rightarrow> (Inl e, self)
      | Inr t \<Rightarrow>
          (let self1 = self\<lparr>timestamp_of := Some t\<rparr> in
           case SignatureClient_signRequest (client self1) clk (req_url request) None
                  (req_body request) (req_method request) (timestamp_of self1) of
             Inl e \<Rightarrow> (Inl e, self1)
           | Inr hs \<Rightarrow>
               (Inr (request\<lparr>req_headers := ci_update (req_headers request) hs\<rparr>), self1)))"

definition set_validSignature :: "response \<Rightarrow> bool option \<Rightarrow> signed_response" where
  "set_validSignature response v =
     \<lparr>resp_headers = resp_headers response, resp_text = resp_text response,
      validSignature = v\<rparr>"

text \<open>
  \<^verbatim>\<open>build_response\<close>, after the parent class has built \<open>response\<close>. The test
  \<^verbatim>\<open>if signature:\<close> is false for a missing header and for an empty header value.
\<close>

definition build_response ::
  "'sig SignatureAdapter \<Rightarrow> response \<Rightarrow> error + signed_response" where
  "build_response self response =
     (let signature = resp_headers response (SignatureClient_SIGNATURE_HEADER (client self))
      in case signature of
           None \<Rightarrow> Inr (set_validSignature response None)
         | Some s \<Rightarrow>
             if s \<noteq> []
             then (case SignatureClient_validateResponse (client self) s (resp_text response)
                          (timestamp_of self) of
                     Inl e \<Rightarrow> Inl e
                   | Inr v \<Rightarrow> Inr (set_validSignature response (Some v)))
             else Inr (set_validSignature response None))"

section \<open>The protocol V1\<close>

text \<open>
  Modelled from the spec: the protocol module, with the classes \<^verbatim>\<open>BaseVersion\<close> and
  \<^verbatim>\<open>V1\<close>, is not among the sources. The specification names a keyed hash, a canonical
  string for a request, a canonical form of a response and a timestamp format, and
  leaves their layout to the version. A \<open>v1_scheme\<close> holds these choices:
  \<^item> \<open>header_name\<close>, the constant \<^verbatim>\<open>SIGNATURE_HEADER\<close>;
  \<^item> \<open>clock_format\<close>, the timestamp string for a clock reading;
  \<^item> \<open>keyed_hash key message\<close>, the digest;
  \<^item> \<open>request_form baseUrl url params method body timestamp\<close>, the canonical string
    of a request, or an error for malformed input, given the parameters ordered by
    key and the method in upper case;
  \<^item> \<open>response_form body timestamp\<close>, the canonical form of a response, \<open>None\<close>
    when the version needs a timestamp and there is none.
\<close>

record v1_scheme =
  header_name :: string
  clock_format :: "clock \<Rightarrow> string"
  keyed_hash :: "string \<Rightarrow> string \<Rightarrow> string"
  request_form :: "string option \<Rightarrow> string \<Rightarrow> params \<Rightarrow> string option \<Rightarrow> string option
                     \<Rightarrow> string \<Rightarrow> error + string"
  response_form :: "string \<Rightarrow> string option \<Rightarrow> string option"

text \<open>
  Modelled from the spec: \<^verbatim>\<open>V1.genTimestamp\<close> is missing from the sources. It reads the
  clock and renders it in the format of the version.
\<close>

definition V1_genTimestamp :: "v1_scheme \<Rightarrow> clock \<Rightarrow> error + string" where
  "V1_genTimestamp S clk = Inr (clock_format S clk)"

text \<open>
  Modelled from the spec: \<^verbatim>\<open>V1.signRequest\<close> is missing from the sources. The timestamp
  is the one supplied, or is generated at signing time. The canonical string has the
  query parameters in lexicographic order of their keys, the method in upper case, the
  body as it is and the timestamp; malformed input fails with an error. The signature
  is the keyed hash of the canonical string under the key of the protocol.
\<close>

definition V1_signRequest ::
  "v1_scheme \<Rightarrow> string \<Rightarrow> string option \<Rightarrow> clock \<Rightarrow> string \<Rightarrow> string option
     \<Rightarrow> params option \<Rightarrow> string option \<Rightarrow> string option \<Rightarrow> error + string" where
  "V1_signRequest S signatureKey baseUrl clk url method params body timestamp =
     (let t = (case timestamp of None \<Rightarrow> clock_format S clk | Some t \<Rightarrow> t);
          ps = (case params of None \<Rightarrow> [] | Some ps \<Rightarrow> sort_key fst ps)
      in case request_form S baseUrl url ps (map_option upper method) body t of
           Inl e \<Rightarrow> Inl e
         | Inr canonical \<Rightarrow> Inr (keyed_hash S signatureKey canonical))"

text \<open>
  Modelled from the spec: \<^verbatim>\<open>V1.getHeaders\<close> is missing from the sources. It puts the
  signature under the header named by \<^verbatim>\<open>SIGNATURE_HEADER\<close>.
\<close>

definition V1_getHeaders :: "v1_scheme \<Rightarrow> string \<Rightarrow> error + pydict" where
  "V1_getHeaders S signature = Inr [(header_name S, signature)]"

text \<open>
  Modelled from the spec: \<^verbatim>\<open>V1.validateResponse\<close> is missing from the sources. It
  recomputes the signature over the canonical form of the response body and timestamp,
  with the same key and keyed hash as signing, and returns whether the signature given
  is exactly that one. A mismatch and a missing timestamp give false; nothing raises.
\<close>

definition V1_validateResponse ::
  "v1_scheme \<Rightarrow> string \<Rightarrow> string \<Rightarrow> string \<Rightarrow> string option \<Rightarrow> error + bool" where
  "V1_validateResponse S signatureKey signature body timestamp =
     Inr (case response_form S body timestamp of
            None \<Rightarrow> False
          | Some canonical \<Rightarrow> signature = keyed_hash S signatureKey canonical)"

text \<open>
  Modelled from the spec: the class \<^verbatim>\<open>V1\<close> is missing from the sources. An instance is
  a stateless holder of the key and of the base url; it is an instance of
  \<^verbatim>\<open>BaseVersion\<close> and, as an ordinary object, true. Its constructor does not raise.
\<close>

definition V1_object :: "v1_scheme \<Rightarrow> string \<Rightarrow> string option \<Rightarrow> string pyobject" where
  "V1_object S signatureKey baseUrl =
     \<lparr>isBaseVersion = True,
      truthy = True,
      str_of = ''<V1 object>'',
      SIGNATURE_HEADER = header_name S,
      genTimestamp = V1_genTimestamp S,
      signRequest = V1_signRequest S signatureKey baseUrl,
      getHeaders = V1_getHeaders S,
      validateResponse = V1_validateResponse S signatureKey\<rparr>"

definition V1 :: "v1_scheme \<Rightarrow> string \<Rightarrow> string option \<Rightarrow> error + string pyobject" where
  "V1 S signatureKey baseUrl = Inr (V1_object S signatureKey baseUrl)"

definition v1_client :: "v1_scheme \<Rightarrow> string \<Rightarrow> string option \<Rightarrow> string SignatureClient" where
  "v1_client S signatureKey baseUrl = \<lparr>signProtocol = V1_object S signatureKey baseUrl\<rparr>"

subsection \<open>A scheme to compute with\<close>

text \<open>
  A small scheme on which the definitions can be evaluated. Its keyed hash writes the
  key in front of the message, so it tells any two messages apart; it stands in for a
  digest and is in no way secret. The canonical strings join their fields with \<open>&\<close>.
\<close>

definition join_amp :: "string list \<Rightarrow> string" where
  "join_amp parts = concat (map (\<lambda>f. f @ ''&'') parts)"

definition plain_hash :: "string \<Rightarrow> string \<Rightarrow> string" where
  "plain_hash key message = key @ '':'' @ message"

definition plain_request_form ::
  "string option \<Rightarrow> string \<Rightarrow> params \<Rightarrow> string option \<Rightarrow> string option \<Rightarrow> string
     \<Rightarrow> error + string" where
  "plain_request_form baseUrl url ps method body t =
     Inr (join_amp
            ([case method of None \<Rightarrow> [] | Some m \<Rightarrow> m, url]
             @ map (\<lambda>(k, v). k @ ''='' @ v) ps
             @ [case body of None \<Rightarrow> [] | Some b \<Rightarrow> b, t]))"

definition plain_response_form :: "string \<Rightarrow> string option \<Rightarrow> string option" where
  "plain_response_form body timestamp =
     (case timestamp of None \<Rightarrow> None | Some t \<Rightarrow> Some (join_amp [body, t]))"

definition plain_scheme :: v1_scheme where
  "plain_scheme =
     \<lparr>header_name = ''x-signature'',
      clock_format = (\<lambda>clk. replicate clk CHR ''1''),
      keyed_hash = plain_hash,
      request_form = plain_request_form,
      response_form = plain_response_form\<rparr>"

text \<open>
  An object with the five capabilities that is not an instance of \<^verbatim>\<open>BaseVersion\<close>, a
  protocol object whose \<^verbatim>\<open>validateResponse\<close> raises, a request that carries a
  signature header of an earlier signing, and an adapter that has signed a request at
  the timestamp 1700000000.
\<close>

definition duck :: "string pyobject" where
  "duck = (V1_object plain_scheme ''secret123'' None)
            \<lparr>isBaseVersion := False, str_of := ''<Duck object>''\<rparr>"

definition raising :: "string pyobject" where
  "raising = (V1_object plain_scheme ''secret123'' None)
               \<lparr>validateResponse := (\<lambda>signature body timestamp. Inl (Raised ''validateResponse''))\<rparr>"

definition plain_request :: request where
  "plain_request =
     \<lparr>req_url = ''/items'', req_method = Some ''GET'', req_body = None,
      req_headers = Map.empty(''x-signature'' \<mapsto> (''X-Signature'', ''stale''))\<rparr>"

definition plain_adapter :: "string SignatureAdapter" where
  "plain_adapter =
     \<lparr>client = v1_client plain_scheme ''secret123'' None, timestamp_of = Some ''1700000000''\<rparr>"

section \<open>Facts shared by the proofs\<close>

text \<open>Only \<open>v1\<close> and \<open>V1\<close> are turned into \<open>v1\<close> by \<open>lower\<close>.\<close>

lemma lower_char_v: "lower_char c = CHR ''v'' \<longleftrightarrow> c = CHR ''v'' \<or> c = CHR ''V''"
  by (auto simp: lower_char_def split: if_splits)

lemma lower_char_1: "lower_char c = CHR ''1'' \<longleftrightarrow> c = CHR ''1''"
  by (auto simp: lower_char_def split: if_splits)

lemma lower_v1: "lower s = ''v1'' \<longleftrightarrow> s = ''v1'' \<or> s = ''V1''"
proof (cases s)
  case Nil
  then show ?thesis by (simp add: lower_def)
next
  case (Cons a t)
  note s = this
  show ?thesis
  proof (cases t)
    case Nil
    with s show ?thesis by (simp add: lower_def)
  next
    case (Cons b u)
    with s show ?thesis
      by (cases u) (auto simp: lower_def lower_char_v lower_char_1)
  qed
qed

text \<open>
  The constructor on a string, on a false argument and on an instance of
  \<^verbatim>\<open>BaseVersion\<close>.
\<close>

lemma init_registered:
  assumes "s \<noteq> []" and "lower s = ''v1''"
  shows "SignatureClient_init V1c key base (PyStr s) =
           (case V1c key base of
              Inl e \<Rightarrow> Inl e
            | Inr p \<Rightarrow> if truthy p then Inr \<lparr>signProtocol = p\<rparr> else Inl unsupported_version)"
  using assms by (simp add: SignatureClient_init_def split: sum.splits)

lemma init_unregistered:
  assumes "s \<noteq> []" and "lower s \<noteq> ''v1''"
  shows "SignatureClient_init V1c key base (PyStr s) =
           (case V1c key base of Inl e \<Rightarrow> Inl e | Inr p \<Rightarrow> Inl unsupported_version)"
  using assms by (simp add: SignatureClient_init_def split: sum.splits)

lemma init_falsy:
  assumes "\<not> arg_truthy v"
  shows "SignatureClient_init V1c key base v = SignatureClient_init V1c key base (PyStr ''v1'')"
  using assms by (simp add: SignatureClient_init_def)

lemma init_instance:
  assumes "isBaseVersion obj" and "truthy obj"
  shows "SignatureClient_init V1c key base (PyObj obj) = Inr \<lparr>signProtocol = obj\<rparr>"
  using assms by (simp add: SignatureClient_init_def)

lemma init_V1:
  "SignatureClient_init (V1 S) key base (PyStr ''v1'') = Inr (v1_client S key base)"
  by (simp add: init_registered lower_v1 V1_def V1_object_def v1_client_def)

lemmas plain_defs =
  plain_scheme_def plain_hash_def plain_request_form_def plain_response_form_def join_amp_def

lemmas V1_defs =
  v1_client_def V1_object_def V1_genTimestamp_def V1_signRequest_def V1_getHeaders_def
  V1_validateResponse_def

lemmas client_defs =
  SignatureClient_SIGNATURE_HEADER_def SignatureClient_genTimestamp_def
  SignatureClient_signRequest_def SignatureClient_validateResponse_def

text \<open>A call, and so a sequence of calls, gives the client back as it was.\<close>

lemma perform_same: "snd (perform self clk c) = self"
  by (cases c) simp_all

lemma perform_all_same: "snd (perform_all self cs) = self"
proof (induction cs arbitrary: self)
  case Nil
  show ?case by simp
next
  case (Cons x cs)
  obtain clk c where x: "x = (clk, c)" by (cases x)
  obtain r self1 where p: "perform self clk c = (r, self1)" by (cases "perform self clk c")
  from perform_same [of self clk c] p have "self1 = self" by simp
  with Cons.IH [of self] x p show ?case by (auto split: prod.splits)
qed

text \<open>
  After \<^verbatim>\<open>add_headers\<close> has signed a request, the adapter holds the timestamp that
  the client generated for it, and the request was signed with that timestamp.
\<close>

lemma add_headers_timestamp:
  assumes "add_headers self clk request = (Inr request1, self1)"
  shows "\<exists>t hs. SignatureClient_genTimestamp (client self) clk = Inr t
           \<and> timestamp_of self1 = Some t
           \<and> client self1 = client self
           \<and> SignatureClient_signRequest (client self) clk (req_url request) None
                (req_body request) (req_method request) (Some t) = Inr hs
           \<and> req_headers request1 = ci_update (req_headers request) hs"
  using assms by (auto simp: add_headers_def Let_def split: sum.splits)

text \<open>
  The response built for a signature header that is missing or not empty, in terms of
  the timestamp that the adapter holds.
\<close>

lemma build_response_nonempty:
  assumes "resp_headers response (SignatureClient_SIGNATURE_HEADER (client self)) \<noteq> Some []"
  shows "build_response self response =
           (case resp_headers response (SignatureClient_SIGNATURE_HEADER (client self)) of
              None \<Rightarrow> Inr (set_validSignature response None)
            | Some s \<Rightarrow>
                (case SignatureClient_validateResponse (client self) s (resp_text response)
                        (timestamp_of self) of
                   Inl e \<Rightarrow> Inl e
                 | Inr v \<Rightarrow> Inr (set_validSignature response (Some v))))"
  using assms by (simp add: build_response_def split: option.splits)

section \<open>Signing and validating with the protocol V1\<close>

text \<open>
  C2, as amended. With a client of the protocol V1 and a timestamp supplied by the
  caller, the signature and the headers are the same at every reading of the clock:
  two calls with the same arguments give the same result, and nothing but the
  arguments and the key enters it. Without a timestamp the result is the one for the
  timestamp generated at the reading of the clock.
\<close>

theorem signRequest_deterministic:
  assumes "SignatureClient_init (V1 S) key base (PyStr ''v1'') = Inr self"
  shows "signRequest (signProtocol self) clk url method params body (Some t) =
           signRequest (signProtocol self) clk' url method params body (Some t)
       \<and> SignatureClient_signRequest self clk url params body method (Some t) =
           SignatureClient_signRequest self clk' url params body method (Some t)
       \<and> SignatureClient_signRequest self clk url params body method None =
           SignatureClient_signRequest self clk' url params body method
             (Some (clock_format S clk))"
proof -
  from assms have self: "self = v1_client S key base"
    by (simp add: init_V1)
  show ?thesis
    by (simp add: self client_defs V1_defs)
qed

theorem signRequest_deterministic_witness:
  "SignatureClient_init (V1 plain_scheme) ''k'' None (PyStr ''v1'') =
     Inr (v1_client plain_scheme ''k'' None)
   \<and> SignatureClient_signRequest (v1_client plain_scheme ''k'' None) 5 ''/a'' None (Some ''b'')
       (Some ''get'') (Some ''17'') =
     SignatureClient_signRequest (v1_client plain_scheme ''k'' None) 99 ''/a'' None (Some ''b'')
       (Some ''get'') (Some ''17'')"
proof -
  have i: "SignatureClient_init (V1 plain_scheme) ''k'' None (PyStr ''v1'') =
             Inr (v1_client plain_scheme ''k'' None)"
    by (rule init_V1)
  from signRequest_deterministic [OF i, of 5 "''/a''" "Some ''get''" None "Some ''b''" "''17''" 99] i
  show ?thesis by simp
qed

text \<open>
  C2 as stated fails when the timestamp is left out, as its default \<^verbatim>\<open>None\<close> allows:
  the timestamp is generated at signing time, and two calls with the same arguments
  at two readings of the clock give two signatures.
\<close>

theorem signRequest_clock_counterexample:
  "SignatureClient_init (V1 plain_scheme) ''secret123'' None PyNone =
     Inr (v1_client plain_scheme ''secret123'' None)
   \<and> SignatureClient_signRequest (v1_client plain_scheme ''secret123'' None) (Suc 0)
       ''/items'' None None (Some ''GET'') None =
     Inr [(''x-signature'', ''secret123:GET&/items&&1&'')]
   \<and> SignatureClient_signRequest (v1_client plain_scheme ''secret123'' None) (Suc (Suc 0))
       ''/items'' None None (Some ''GET'') None =
     Inr [(''x-signature'', ''secret123:GET&/items&&11&'')]"
  by (simp add: init_falsy init_V1)
     (simp add: client_defs V1_defs plain_defs upper_def upper_char_def)

text \<open>
  C7. With a client of the protocol V1, a signature that is not the keyed hash of the
  canonical form of the response makes \<^verbatim>\<open>validateResponse\<close> return false, as a
  value; it does not raise.
\<close>

theorem validateResponse_mismatch_false:
  assumes "SignatureClient_init (V1 S) key base (PyStr ''v1'') = Inr self"
    and "\<forall>canonical. response_form S body timestamp = Some canonical
           \<longrightarrow> signature \<noteq> keyed_hash S key canonical"
  shows "SignatureClient_validateResponse self signature body timestamp = Inr False"
proof -
  from assms(1) have self: "self = v1_client S key base"
    by (simp add: init_V1)
  from assms(2) show ?thesis
    by (simp add: self client_defs V1_defs split: option.splits)
qed

theorem validateResponse_mismatch_false_witness:
  "SignatureClient_init (V1 plain_scheme) ''k'' None (PyStr ''v1'') =
     Inr (v1_client plain_scheme ''k'' None)
   \<and> response_form plain_scheme ''b'' (Some ''17'') = Some ''b&17&''
   \<and> ''0123abcd'' \<noteq> keyed_hash plain_scheme ''k'' ''b&17&''
   \<and> SignatureClient_validateResponse (v1_client plain_scheme ''k'' None) ''0123abcd'' ''b''
       (Some ''17'') = Inr False"
proof -
  have i: "SignatureClient_init (V1 plain_scheme) ''k'' None (PyStr ''v1'') =
             Inr (v1_client plain_scheme ''k'' None)"
    by (rule init_V1)
  have f: "response_form plain_scheme ''b'' (Some ''17'') = Some ''b&17&''"
    by (simp add: plain_defs)
  have n: "''0123abcd'' \<noteq> keyed_hash plain_scheme ''k'' ''b&17&''"
    by (simp add: plain_defs)
  from f n have m: "\<forall>canonical. response_form plain_scheme ''b'' (Some ''17'') = Some canonical
             \<longrightarrow> ''0123abcd'' \<noteq> keyed_hash plain_scheme ''k'' canonical"
    by simp
  from validateResponse_mismatch_false [OF i m] i f n show ?thesis by blast
qed

section \<open>Construction of a client\<close>

text \<open>
  C3, as amended. The names \<open>V1\<close> and \<open>v1\<close> construct the same client, bound to the
  object that the constructor of \<^verbatim>\<open>V1\<close> returns. A string that is not empty and
  whose lower case is not \<open>v1\<close> constructs nothing: the result is the error of the
  constructor of \<^verbatim>\<open>V1\<close> if that raises, and the \<^verbatim>\<open>ValueError\<close> of an unsupported
  version otherwise.
\<close>

theorem version_name_lookup:
  assumes "s \<noteq> []" and "lower s \<noteq> ''v1''"
  shows "SignatureClient_init V1c key base (PyStr ''V1'') =
           SignatureClient_init V1c key base (PyStr ''v1'')
       \<and> SignatureClient_init V1c key base (PyStr ''v1'') =
           (case V1c key base of
              Inl e \<Rightarrow> Inl e
            | Inr p \<Rightarrow> if truthy p then Inr \<lparr>signProtocol = p\<rparr> else Inl unsupported_version)
       \<and> SignatureClient_init V1c key base (PyStr s) =
           (case V1c key base of Inl e \<Rightarrow> Inl e | Inr p \<Rightarrow> Inl unsupported_version)"
proof -
  have "SignatureClient_init V1c key base (PyStr ''V1'') =
          SignatureClient_init V1c key base (PyStr ''v1'')"
    by (simp add: init_registered lower_v1)
  moreover have "SignatureClient_init V1c key base (PyStr ''v1'') =
           (case V1c key base of
              Inl e \<Rightarrow> Inl e
            | Inr p \<Rightarrow> if truthy p then Inr \<lparr>signProtocol = p\<rparr> else Inl unsupported_version)"
    by (simp add: init_registered lower_v1)
  moreover have "SignatureClient_init V1c key base (PyStr s) =
           (case V1c key base of Inl e \<Rightarrow> Inl e | Inr p \<Rightarrow> Inl unsupported_version)"
    using assms by (rule init_unregistered)
  ultimately show ?thesis by blast
qed

theorem version_name_lookup_witness:
  "''v2'' \<noteq> [] \<and> lower ''v2'' \<noteq> ''v1''
   \<and> SignatureClient_init (V1 plain_scheme) ''secret123'' None (PyStr ''V1'') =
       Inr (v1_client plain_scheme ''secret123'' None)
   \<and> SignatureClient_init (V1 plain_scheme) ''secret123'' None (PyStr ''v1'') =
       Inr (v1_client plain_scheme ''secret123'' None)
   \<and> SignatureClient_init (V1 plain_scheme) ''secret123'' None (PyStr ''v2'') =
       Inl unsupported_version"
proof -
  have h: "''v2'' \<noteq> []" "lower ''v2'' \<noteq> ''v1''"
    by (simp_all add: lower_def lower_char_def)
  from version_name_lookup [OF h, of "V1 plain_scheme" "''secret123''" None] h
  show ?thesis by (simp add: V1_def V1_object_def v1_client_def)
qed

text \<open>
  C3 as stated fails for the empty string: it matches no registered version, and the
  constructor returns a client of \<open>v1\<close>.
\<close>

theorem empty_version_name_counterexample:
  "lower [] \<noteq> ''v1''
   \<and> SignatureClient_init (V1 plain_scheme) ''secret123'' None (PyStr []) =
       Inr (v1_client plain_scheme ''secret123'' None)"
  by (simp add: init_falsy init_V1 lower_def)

text \<open>
  C4, as amended. An object that is an instance of \<^verbatim>\<open>BaseVersion\<close> and whose truth
  value is true is bound as it is, whatever the constructor of \<^verbatim>\<open>V1\<close> would do, and
  every operation of the client is the operation of that object.
\<close>

theorem init_binds_instance:
  assumes "isBaseVersion obj" and "truthy obj"
  shows "SignatureClient_init V1c key base (PyObj obj) = Inr \<lparr>signProtocol = obj\<rparr>
       \<and> SignatureClient_SIGNATURE_HEADER \<lparr>signProtocol = obj\<rparr> = SIGNATURE_HEADER obj
       \<and> SignatureClient_genTimestamp \<lparr>signProtocol = obj\<rparr> clk = genTimestamp obj clk
       \<and> SignatureClient_signRequest \<lparr>signProtocol = obj\<rparr> clk url params body method timestamp =
           (case signRequest obj clk url method params body timestamp of
              Inl e \<Rightarrow> Inl e
            | Inr signature \<Rightarrow> getHeaders obj signature)
       \<and> SignatureClient_validateResponse \<lparr>signProtocol = obj\<rparr> sig response_text ts =
           validateResponse obj sig response_text ts"
  using assms by (simp add: init_instance client_defs split: sum.splits)

theorem init_binds_instance_witness:
  "isBaseVersion (V1_object plain_scheme ''other'' None)
   \<and> truthy (V1_object plain_scheme ''other'' None)
   \<and> SignatureClient_init (V1 plain_scheme) ''secret123'' None
         (PyObj (V1_object plain_scheme ''other'' None)) =
       Inr (v1_client plain_scheme ''other'' None)
   \<and> SignatureClient_validateResponse (v1_client plain_scheme ''other'' None)
         ''other:body&17&'' ''body'' (Some ''17'') = Inr True"
proof -
  have h: "isBaseVersion (V1_object plain_scheme ''other'' None)"
          "truthy (V1_object plain_scheme ''other'' None)"
    by (simp_all add: V1_object_def)
  from init_binds_instance [OF h, where ?V1c = "V1 plain_scheme" and key = "''secret123''"
         and base = None and sig = "''other:body&17&''" and response_text = "''body''"
         and ts = "Some ''17''"] h
  show ?thesis
    by (simp add: v1_client_def) (simp add: V1_object_def V1_validateResponse_def plain_defs)
qed

text \<open>
  C4 as stated fails for an object that has the five capabilities and is not an
  instance of \<^verbatim>\<open>BaseVersion\<close>: its \<^verbatim>\<open>str\<close> is looked up as a version name, and the
  constructor raises.
\<close>

theorem duck_typed_protocol_counterexample:
  "truthy duck \<and> \<not> isBaseVersion duck
   \<and> SIGNATURE_HEADER duck = ''x-signature''
   \<and> SignatureClient_init (V1 plain_scheme) ''secret123'' None (PyObj duck) =
       Inl unsupported_version"
  by (simp add: duck_def SignatureClient_init_def V1_def V1_object_def
        plain_scheme_def lower_def lower_char_def)

text \<open>
  C5. An argument \<^verbatim>\<open>signatureVersion\<close> whose truth value is false, such as \<^verbatim>\<open>None\<close>
  (also the default) and the empty string, constructs what the name \<open>v1\<close> constructs:
  a client bound to the object that the constructor of \<^verbatim>\<open>V1\<close> returns.
\<close>

theorem init_default_v1:
  assumes "\<not> arg_truthy signatureVersion"
  shows "SignatureClient_init V1c key base signatureVersion =
           SignatureClient_init V1c key base (PyStr ''v1'')
       \<and> SignatureClient_init V1c key base signatureVersion =
           (case V1c key base of
              Inl e \<Rightarrow> Inl e
            | Inr p \<Rightarrow> if truthy p then Inr \<lparr>signProtocol = p\<rparr> else Inl unsupported_version)"
  using assms by (simp add: init_falsy init_registered lower_v1)

theorem init_default_v1_witness:
  "\<not> arg_truthy (PyNone :: string version_arg)
   \<and> \<not> arg_truthy (PyStr [] :: string version_arg)
   \<and> SignatureClient_init (V1 plain_scheme) ''secret123'' None PyNone =
       Inr (v1_client plain_scheme ''secret123'' None)
   \<and> SignatureClient_init (V1 plain_scheme) ''secret123'' None (PyStr []) =
       Inr (v1_client plain_scheme ''secret123'' None)"
proof -
  have n: "\<not> arg_truthy (PyNone :: string version_arg)" by simp
  have e: "\<not> arg_truthy (PyStr [] :: string version_arg)" by simp
  from init_default_v1 [OF n, of "V1 plain_scheme" "''secret123''" None, THEN conjunct2]
       init_default_v1 [OF e, of "V1 plain_scheme" "''secret123''" None, THEN conjunct2] n e
  show ?thesis by (simp add: V1_def V1_object_def v1_client_def)
qed

section \<open>Operations of a client\<close>

text \<open>
  C6. \<^verbatim>\<open>SignatureClient.signRequest\<close> is the protocol's \<^verbatim>\<open>getHeaders\<close> applied to the
  result of the protocol's \<^verbatim>\<open>signRequest\<close> on the url, method, params, body and
  timestamp; an exception of \<^verbatim>\<open>signRequest\<close> is passed on.
\<close>

theorem signRequest_composition:
  "SignatureClient_signRequest self clk url params body method timestamp =
     (case signRequest (signProtocol self) clk url method params body timestamp of
        Inl e \<Rightarrow> Inl e
      | Inr signature \<Rightarrow> getHeaders (signProtocol self) signature)"
  by (simp add: SignatureClient_signRequest_def)

text \<open>
  C8. After any sequence of calls of the public members of a client, at any clock
  readings and whether they raise or not, the client is bound to the protocol object
  it was bound to before.
\<close>

theorem perform_all_keeps_protocol:
  "snd (perform_all self calls) = self
   \<and> signProtocol (snd (perform_all self calls)) = signProtocol self"
  by (simp add: perform_all_same)

section \<open>The response built by the adapter\<close>

text \<open>
  C9, as amended. Let the adapter have signed a request with \<^verbatim>\<open>add_headers\<close>, at the
  timestamp it generated for that request, and let the signature header of the
  response not be the empty string. Then \<^verbatim>\<open>validSignature\<close> has one of three values:
  \<open>None\<close> when the header is missing, and otherwise the boolean that
  \<^verbatim>\<open>validateResponse\<close> returns for the header value, the text of the response and the
  signing timestamp; true when the signature validates against them, false when it
  does not. An exception of \<^verbatim>\<open>validateResponse\<close> is passed on.
\<close>

theorem build_response_tristate:
  assumes "add_headers self clk request = (Inr request1, self1)"
    and "resp_headers response (SignatureClient_SIGNATURE_HEADER (client self1)) \<noteq> Some []"
  shows "\<exists>t hs.
           SignatureClient_genTimestamp (client self) clk = Inr t
         \<and> SignatureClient_signRequest (client self) clk (req_url request) None
             (req_body request) (req_method request) (Some t) = Inr hs
         \<and> req_headers request1 = ci_update (req_headers request) hs
         \<and> build_response self1 response =
             (case resp_headers response (SignatureClient_SIGNATURE_HEADER (client self)) of
                None \<Rightarrow> Inr (set_validSignature response None)
              | Some s \<Rightarrow>
                  (case SignatureClient_validateResponse (client self) s (resp_text response)
                          (Some t) of
                     Inl e \<Rightarrow> Inl e
                   | Inr v \<Rightarrow> Inr (set_validSignature response (Some v))))"
proof -
  from add_headers_timestamp [OF assms(1)] obtain t hs where
    t: "SignatureClient_genTimestamp (client self) clk = Inr t"
    and ts: "timestamp_of self1 = Some t"
    and c: "client self1 = client self"
    and hs: "SignatureClient_signRequest (client self) clk (req_url request) None
               (req_body request) (req_method request) (Some t) = Inr hs"
    and r: "req_headers request1 = ci_update (req_headers request) hs"
    by blast
  from build_response_nonempty [OF assms(2)] ts c
  have "build_response self1 response =
          (case resp_headers response (SignatureClient_SIGNATURE_HEADER (client self)) of
             None \<Rightarrow> Inr (set_validSignature response None)
           | Some s \<Rightarrow>
               (case SignatureClient_validateResponse (client self) s (resp_text response)
                       (Some t) of
                  Inl e \<Rightarrow> Inl e
                | Inr v \<Rightarrow> Inr (set_validSignature response (Some v))))"
    by (simp split: option.splits)
  with t hs r show ?thesis by blast
qed

theorem build_response_tristate_witness:
  "add_headers plain_adapter (Suc (Suc 0)) plain_request =
     (Inr (plain_request\<lparr>req_headers :=
             Map.empty(''x-signature'' \<mapsto> (''x-signature'', ''secret123:GET&/items&&11&''))\<rparr>),
      plain_adapter\<lparr>timestamp_of := Some ''11''\<rparr>)
   \<and> build_response (plain_adapter\<lparr>timestamp_of := Some ''11''\<rparr>)
       \<lparr>resp_headers = Map.empty, resp_text = ''body''\<rparr> =
     Inr \<lparr>resp_headers = Map.empty, resp_text = ''body'', validSignature = None\<rparr>
   \<and> build_response (plain_adapter\<lparr>timestamp_of := Some ''11''\<rparr>)
       \<lparr>resp_headers = Map.empty(''x-signature'' \<mapsto> ''secret123:body&11&''),
        resp_text = ''body''\<rparr> =
     Inr \<lparr>resp_headers = Map.empty(''x-signature'' \<mapsto> ''secret123:body&11&''),
          resp_text = ''body'', validSignature = Some True\<rparr>
   \<and> build_response (plain_adapter\<lparr>timestamp_of := Some ''11''\<rparr>)
       \<lparr>resp_headers = Map.empty(''x-signature'' \<mapsto> ''secret123:body&11&''),
        resp_text = ''other''\<rparr> =
     Inr \<lparr>resp_headers = Map.empty(''x-signature'' \<mapsto> ''secret123:body&11&''),
          resp_text = ''other'', validSignature = Some False\<rparr>"
proof -
  let ?self1 = "plain_adapter\<lparr>timestamp_of := Some ''11''\<rparr>"
  let ?request1 = "plain_request\<lparr>req_headers :=
         Map.empty(''x-signature'' \<mapsto> (''x-signature'', ''secret123:GET&/items&&11&''))\<rparr>"
  have hdr: "SignatureClient_SIGNATURE_HEADER (client plain_adapter) = ''x-signature''"
    by (simp add: plain_adapter_def client_defs V1_defs plain_defs)
  have hdr1: "SignatureClient_SIGNATURE_HEADER (client ?self1) = ''x-signature''"
    by (simp add: plain_adapter_def client_defs V1_defs plain_defs)
  have t: "SignatureClient_genTimestamp (client plain_adapter) (Suc (Suc 0)) = Inr ''11''"
    by (simp add: plain_adapter_def client_defs V1_defs plain_defs)
  have s: "add_headers plain_adapter (Suc (Suc 0)) plain_request = (Inr ?request1, ?self1)"
    by (simp add: add_headers_def plain_adapter_def plain_request_def client_defs V1_defs
          plain_defs upper_def upper_char_def ci_update_def ci_setitem_def lower_def
          lower_char_def)
  have a: "resp_headers \<lparr>resp_headers = Map.empty, resp_text = ''body''\<rparr>
             (SignatureClient_SIGNATURE_HEADER (client ?self1)) \<noteq> Some []"
    by simp
  have b: "resp_headers
             \<lparr>resp_headers = Map.empty(''x-signature'' \<mapsto> ''secret123:body&11&''),
              resp_text = x\<rparr>
             (SignatureClient_SIGNATURE_HEADER (client ?self1)) \<noteq> Some []" for x
    by (simp add: hdr1)
  have v: "SignatureClient_validateResponse (client plain_adapter)
             ''secret123:body&11&'' ''body'' (Some ''11'') = Inr True"
          "SignatureClient_validateResponse (client plain_adapter)
             ''secret123:body&11&'' ''other'' (Some ''11'') = Inr False"
    by (simp_all add: plain_adapter_def client_defs V1_defs plain_defs)
  from build_response_tristate [OF s a] build_response_tristate [OF s b [of "''body''"]]
       build_response_tristate [OF s b [of "''other''"]] s
  show ?thesis
    by (auto simp: hdr t v set_validSignature_def)
qed

text \<open>
  C9 as stated fails for a response whose signature header is present and empty: the
  empty signature does not validate, and \<^verbatim>\<open>validSignature\<close> is \<open>None\<close>, not false.
\<close>

theorem empty_signature_counterexample:
  "resp_headers \<lparr>resp_headers = Map.empty(''x-signature'' \<mapsto> []), resp_text = ''body''\<rparr>
     (SignatureClient_SIGNATURE_HEADER (client plain_adapter)) = Some []
   \<and> SignatureClient_validateResponse (client plain_adapter) [] ''body''
       (timestamp_of plain_adapter) = Inr False
   \<and> build_response plain_adapter
       \<lparr>resp_headers = Map.empty(''x-signature'' \<mapsto> []), resp_text = ''body''\<rparr> =
     Inr \<lparr>resp_headers = Map.empty(''x-signature'' \<mapsto> []), resp_text = ''body'',
          validSignature = None\<rparr>"
  by (simp add: build_response_def set_validSignature_def plain_adapter_def client_defs V1_defs
        plain_defs)

text \<open>
  C10. When the response carries the signature header with the empty string as its
  value, \<^verbatim>\<open>validSignature\<close> is \<open>None\<close>. The result does not depend on
  \<^verbatim>\<open>validateResponse\<close>: it is the same with any other function in its place, one
  that raises included.
\<close>

theorem build_response_empty_signature:
  assumes "resp_headers response (SignatureClient_SIGNATURE_HEADER (client self)) = Some []"
  shows "build_response self response = Inr (set_validSignature response None)
       \<and> build_response
           (self\<lparr>client := \<lparr>signProtocol = (signProtocol (client self))\<lparr>validateResponse := f\<rparr>\<rparr>\<rparr>)
           response = Inr (set_validSignature response None)"
  using assms by (simp add: build_response_def SignatureClient_SIGNATURE_HEADER_def)

theorem build_response_empty_signature_witness:
  "resp_headers \<lparr>resp_headers = Map.empty(''x-signature'' \<mapsto> []), resp_text = ''body''\<rparr>
     (SignatureClient_SIGNATURE_HEADER
        (client \<lparr>client = \<lparr>signProtocol = raising\<rparr>, timestamp_of = None\<rparr>)) = Some []
   \<and> SignatureClient_validateResponse \<lparr>signProtocol = raising\<rparr> [] ''body'' None =
       Inl (Raised ''validateResponse'')
   \<and> build_response \<lparr>client = \<lparr>signProtocol = raising\<rparr>, timestamp_of = None\<rparr>
       \<lparr>resp_headers = Map.empty(''x-signature'' \<mapsto> []), resp_text = ''body''\<rparr> =
     Inr \<lparr>resp_headers = Map.empty(''x-signature'' \<mapsto> []), resp_text = ''body'',
          validSignature = None\<rparr>"
proof -
  have h: "resp_headers \<lparr>resp_headers = Map.empty(''x-signature'' \<mapsto> []), resp_text = ''body''\<rparr>
             (SignatureClient_SIGNATURE_HEADER
                (client \<lparr>client = \<lparr>signProtocol = raising\<rparr>, timestamp_of = None\<rparr>)) = Some []"
    by (simp add: raising_def client_defs V1_defs plain_defs)
  have r: "SignatureClient_validateResponse \<lparr>signProtocol = raising\<rparr> [] ''body'' None =
             Inl (Raised ''validateResponse'')"
    by (simp add: raising_def client_defs)
  from build_response_empty_signature [OF h, THEN conjunct1] h r show ?thesis
    by (simp add: set_validSignature_def)
qed

end
